theory Spec2Isabelle
  imports Main "HOL-Library.Word"
begin

section \<open>The call-transaction execution context of burrow\<close>

text \<open>
  A shallow embedding of \<^verbatim>\<open>execution/contexts/call_context.go\<close>: the methods
  \<^verbatim>\<open>Execute\<close>, \<^verbatim>\<open>Precheck\<close>, \<^verbatim>\<open>Check\<close>, \<^verbatim>\<open>Deliver\<close> and \<^verbatim>\<open>CallEvents\<close> of
  \<^verbatim>\<open>CallContext\<close>. Go's \<^verbatim>\<open>uint64\<close> is a 64-bit word, so that \<^verbatim>\<open>-=\<close> wraps as it
  does in Go. A method that mutates its receiver takes the context and returns the
  context it leaves behind, next to its Go return value. Calls of the logger change
  nothing the methods return or store and are left out.
\<close>

subsection \<open>Data\<close>

type_synonym Address = "160 word"
type_synonym uint64 = "64 word"
type_synonym bytes = "8 word list"

text \<open>
  Modelled from the spec: \<^verbatim>\<open>errors.Code\<close> is declared in the package
  \<^verbatim>\<open>execution/errors\<close>, outside the files at hand. The three codes the context
  names are constructors; every other code of that package is \<open>ErrorCodeOther\<close>.
\<close>

datatype Code =
    ErrorCodeInvalidAddress
  | ErrorCodeInsufficientFunds
  | ErrorCodeReservedAddress
  | ErrorCodeOther nat

text \<open>
  Modelled from the spec: \<^verbatim>\<open>errors.Exception\<close> (a code and a description), the
  value \<^verbatim>\<open>errors.ErrorCodef\<close> builds and the virtual machine returns.
\<close>

datatype Exception = Exception (ErrorCode: Code) (Description: string)

text \<open>
  A Go \<^verbatim>\<open>error\<close> as the context returns it: a bare code
  (\<^verbatim>\<open>errors.ErrorCodeInvalidAddress\<close>), an exception of \<^verbatim>\<open>errors.ErrorCodef\<close>, or
  the message of \<^verbatim>\<open>fmt.Errorf\<close>. The errors of the storage layer are values of
  this type as well.
\<close>

datatype error =
    CodeError Code
  | ExceptionError Exception
  | Errorf string

text \<open>
  Modelled from the spec: \<^verbatim>\<open>acm.Account\<close> (section 3 of the specification:
  address, balance, sequence number, code, permission bits).
\<close>

record Account =
  Address :: Address
  Balance :: uint64
  Sequence :: uint64
  Code :: bytes
  Permissions :: uint64

text \<open>
  Modelled from the spec: \<^verbatim>\<open>payload.CallTx\<close> and its input. \<open>tx_Address\<close> is the
  field \<^verbatim>\<open>Address *crypto.Address\<close> of the transaction: \<open>None\<close> is Go's \<^verbatim>\<open>nil\<close>.
\<close>

record TxInput =
  Input_Address :: Address
  Amount :: uint64

record CallTx =
  Input :: TxInput
  tx_Address :: "Address option"
  tx_GasLimit :: uint64
  Fee :: uint64
  Data :: bytes

text \<open>The payloads \<^verbatim>\<open>Execute\<close> can be handed; \<open>OtherPayload\<close> carries its rendering.\<close>

datatype Payload = CallTxPayload CallTx | OtherPayload string

text \<open>
  Modelled from the spec: \<^verbatim>\<open>exec.TxExecution\<close>, the receipt (section 3: an
  ordered list of touched-address events, accumulated errors, return bytes, gas
  consumed). \<^verbatim>\<open>PushError\<close> appends to the errors, \<^verbatim>\<open>Input\<close> appends an event for
  an address, \<^verbatim>\<open>Return\<close> records the return value and the gas used.
\<close>

datatype Event = InputEvent Address "Exception option"

record TxExecution =
  Events :: "Event list"
  Exceptions :: "Exception list"
  Result_Return :: bytes
  Result_GasUsed :: uint64

definition PushError :: "TxExecution \<Rightarrow> Exception \<Rightarrow> TxExecution" where
  "PushError t e = t\<lparr>Exceptions := Exceptions t @ [e]\<rparr>"

definition TxExecution_Input :: "TxExecution \<Rightarrow> Address \<Rightarrow> Exception option \<Rightarrow> TxExecution" where
  "TxExecution_Input t a e = t\<lparr>Events := Events t @ [InputEvent a e]\<rparr>"

definition Return :: "TxExecution \<Rightarrow> bytes \<Rightarrow> uint64 \<Rightarrow> TxExecution" where
  "Return t r g = t\<lparr>Result_Return := r, Result_GasUsed := g\<rparr>"

text \<open>The chain tip (\<^verbatim>\<open>bcm.BlockchainInfo\<close>) and the parameters of the virtual machine.\<close>

record BlockchainInfo =
  LastBlockHeight :: uint64
  LastBlockHash :: bytes
  LastBlockTime :: int

record Params =
  BlockHeight :: uint64
  BlockHash :: bytes
  BlockTime :: int
  Params_GasLimit :: uint64

text \<open>\<^verbatim>\<open>const GasLimit = uint64(1000000)\<close>\<close>

definition GasLimit :: uint64 where
  "GasLimit = 1000000"

text \<open>
  The context. \<open>StateWriter\<close> is the state of the account store behind the
  interface \<^verbatim>\<open>state.ReaderWriter\<close>; \<open>tx\<close> and \<open>txe\<close> are the objects the pointers
  \<^verbatim>\<open>ctx.tx\<close> and \<^verbatim>\<open>ctx.txe\<close> point to, so what a method writes through them is
  read off the context it returns.
\<close>

record 's CallContext =
  Tip :: BlockchainInfo
  StateWriter :: 's
  RunCall :: bool
  tx :: CallTx
  txe :: TxExecution

subsection \<open>The collaborators\<close>

text \<open>
  Everything the context calls outside its own file is a parameter: the account store
  (\<open>'s\<close> is its state), the permission checks, the registry of native contracts,
  the address derivation, the state cache of the virtual machine (\<open>'c\<close> is its
  state; \<open>Sync\<close> flushes it to the store), the virtual machine's \<^verbatim>\<open>Call\<close>, and
  the renderings \<^verbatim>\<open>txe.Trace()\<close>, \<^verbatim>\<open>exception.Error()\<close> and \<^verbatim>\<open>%s\<close> of an address.
  \<open>Call\<close> takes the parameters and the origin given to \<^verbatim>\<open>evm.NewVM\<close>, then the
  arguments of \<^verbatim>\<open>vmach.Call\<close>; it returns the cache and the receipt as it leaves
  them, the output, the exception (\<open>None\<close> is \<^verbatim>\<open>nil\<close>) and the gas left in \<^verbatim>\<open>&gas\<close>.

  \<open>GetAccount\<close> returns \<open>Inl\<close> for an error, \<open>Inr None\<close> for \<^verbatim>\<open>nil, nil\<close>, and
  otherwise the account as a value: what the context then writes into it reaches the
  store through \<open>UpdateAccount\<close> only (section 3 of the specification: mutations on
  an in-memory fetch are void unless followed by a successful persist call).
  \<open>UpdateAccount\<close> and \<open>Sync\<close> return the store as they leave it and their error.
  The cache does not write to the store before \<open>Sync\<close> (section 2: a write-buffered
  view that commits on success).
\<close>

record ('s, 'c) env =
  GetAccount :: "'s \<Rightarrow> Address \<Rightarrow> error + Account option"
  UpdateAccount :: "'s \<Rightarrow> Account \<Rightarrow> 's \<times> error option"
  hasCreateContractPermission :: "'s \<Rightarrow> Account \<Rightarrow> bool"
  hasCallPermission :: "'s \<Rightarrow> Account \<Rightarrow> bool"
  IsRegisteredNativeContract :: "Address \<Rightarrow> bool"
  NewContractAddress :: "Address \<Rightarrow> uint64 \<Rightarrow> Address"
  NewState :: "'s \<Rightarrow> 'c"
  IncSequence :: "'c \<Rightarrow> Address \<Rightarrow> 'c"
  GetSequence :: "'c \<Rightarrow> Address \<Rightarrow> uint64"
  CreateAccount :: "'c \<Rightarrow> Address \<Rightarrow> 'c"
  GetCode :: "'c \<Rightarrow> Address \<Rightarrow> bytes"
  InitCode :: "'c \<Rightarrow> Address \<Rightarrow> bytes \<Rightarrow> 'c"
  Sync :: "'c \<Rightarrow> 's \<Rightarrow> 's \<times> error option"
  Call :: "Params \<Rightarrow> Address \<Rightarrow> 'c \<Rightarrow> TxExecution \<Rightarrow> Address \<Rightarrow> Address \<Rightarrow> bytes \<Rightarrow> bytes
             \<Rightarrow> uint64 \<Rightarrow> uint64 \<Rightarrow> 'c \<times> TxExecution \<times> bytes \<times> Exception option \<times> uint64"
  Trace :: "TxExecution \<Rightarrow> string"
  ErrorString :: "Exception \<Rightarrow> string"
  AddressString :: "Address \<Rightarrow> string"

subsection \<open>Precheck\<close>

text \<open>
  The last step of \<^verbatim>\<open>Precheck\<close>: \<^verbatim>\<open>UpdateAccount(inAcc)\<close>, whose error is returned,
  else the two accounts.
\<close>

definition Precheck_update ::
  "('s, 'c) env \<Rightarrow> 's CallContext \<Rightarrow> Account \<Rightarrow> Account option
     \<Rightarrow> 's CallContext \<times> (error + Account \<times> Account option)" where
  "Precheck_update env ctx inAcc outAcc =
     (case UpdateAccount env (StateWriter ctx) inAcc of
        (s', Some err) \<Rightarrow> (ctx\<lparr>StateWriter := s'\<rparr>, Inl err)
      | (s', None) \<Rightarrow> (ctx\<lparr>StateWriter := s'\<rparr>, Inr (inAcc, outAcc)))"

definition Precheck ::
  "('s, 'c) env \<Rightarrow> 's CallContext \<Rightarrow> 's CallContext \<times> (error + Account \<times> Account option)" where
  "Precheck env ctx =
     (case GetAccount env (StateWriter ctx) (Input_Address (Input (tx ctx))) of
        Inl err \<Rightarrow> (ctx, Inl err)
      | Inr None \<Rightarrow> (ctx, Inl (CodeError ErrorCodeInvalidAddress))
      | Inr (Some acc) \<Rightarrow>
          if Amount (Input (tx ctx)) < Fee (tx ctx)
          then (ctx, Inl (CodeError ErrorCodeInsufficientFunds))
          else
            let inAcc = acc\<lparr>Balance := Balance acc - Fee (tx ctx)\<rparr> in
            (case tx_Address (tx ctx) of
               None \<Rightarrow>
                 if \<not> hasCreateContractPermission env (StateWriter ctx) inAcc
                 then (ctx, Inl (Errorf (''account '' @ AddressString env (Input_Address (Input (tx ctx)))
                                @ '' does not have CreateContract permission'')))
                 else Precheck_update env ctx inAcc None
             | Some callee \<Rightarrow>
                 if \<not> hasCallPermission env (StateWriter ctx) inAcc
                 then (ctx, Inl (Errorf (''account '' @ AddressString env (Input_Address (Input (tx ctx)))
                                @ '' does not have Call permission'')))
                 else if IsRegisteredNativeContract env callee
                 then (ctx, Inl (ExceptionError (Exception ErrorCodeReservedAddress
                        (''attempt to call a native contract at '' @ AddressString env callee
                         @ '', but native contracts cannot be called using CallTx. Use a ''
                         @ ''contract that calls the native contract or the appropriate tx ''
                         @ ''type (eg. PermsTx, NameTx)''))))
                 else
                   (case GetAccount env (StateWriter ctx) callee of
                      Inl err \<Rightarrow> (ctx, Inl err)
                    | Inr outAcc \<Rightarrow> Precheck_update env ctx inAcc outAcc)))"

subsection \<open>Check\<close>

definition Check ::
  "('s, 'c) env \<Rightarrow> 's CallContext \<Rightarrow> Account \<Rightarrow> uint64 \<Rightarrow> 's CallContext \<times> error option" where
  "Check env ctx inAcc value =
     (let createContract = (tx_Address (tx ctx) = None);
          inAcc1 = inAcc\<lparr>Balance := Balance inAcc - value\<rparr>;
          inAcc2 = (if createContract then inAcc1\<lparr>Sequence := Sequence inAcc1 + 1\<rparr> else inAcc1)
      in case UpdateAccount env (StateWriter ctx) inAcc2 of
           (s', err) \<Rightarrow> (ctx\<lparr>StateWriter := s'\<rparr>, err))"

subsection \<open>Deliver\<close>

text \<open>
  \<^verbatim>\<open>CallEvents\<close>: an input event for the sender and, when the transaction names a
  callee, one for the receiver, each carrying the exception or \<^verbatim>\<open>nil\<close>.
\<close>

definition CallEvents :: "'s CallContext \<Rightarrow> Exception option \<Rightarrow> 's CallContext" where
  "CallEvents ctx err =
     (let txe1 = TxExecution_Input (txe ctx) (Input_Address (Input (tx ctx))) err
      in case tx_Address (tx ctx) of
           None \<Rightarrow> ctx\<lparr>txe := txe1\<rparr>
         | Some callee \<Rightarrow> ctx\<lparr>txe := TxExecution_Input txe1 callee err\<rparr>)"

text \<open>
  ``get or create callee'' (lines 153 to 196): for a creation the sequence of the
  caller is incremented in the cache, the new address is derived from the caller and
  the sequence read back, and an account is created there; for a call the exception
  of a missing or codeless target comes back as \<open>Inl\<close>. Otherwise the result is the
  callee, the code and the cache.
\<close>

definition Deliver_callee ::
  "('s, 'c) env \<Rightarrow> 's CallContext \<Rightarrow> Account \<Rightarrow> Account option \<Rightarrow> 'c
     \<Rightarrow> Exception + Address \<times> bytes \<times> 'c" where
  "Deliver_callee env ctx inAcc outAcc txCache =
     (case tx_Address (tx ctx) of
        None \<Rightarrow>
          let caller = Address inAcc;
              txCache1 = IncSequence env txCache caller;
              callee = NewContractAddress env caller (GetSequence env txCache1 caller);
              code = Data (tx ctx);
              txCache2 = CreateAccount env txCache1 callee
          in Inr (callee, code, txCache2)
      | Some target \<Rightarrow>
          (case outAcc of
             None \<Rightarrow>
               Inl (Exception ErrorCodeInvalidAddress
                      (''CallTx to an address ('' @ AddressString env target @ '') that does not exist''))
           | Some out \<Rightarrow>
               if length (Code out) = 0
               then Inl (Exception ErrorCodeInvalidAddress
                      (''CallTx to an address ('' @ AddressString env target @ '') that holds no code''))
               else Inr (Address out, GetCode env txCache (Address out), txCache)))"

text \<open>The two constants of lines 205 and 211, decoded from their hexadecimal strings.\<close>

definition erc20Address :: Address where
  "erc20Address = 0x1F1D5E1BE37653A107437A496E62AB6C974606BD"

definition erc20Data :: bytes where
  "erc20Data = [0x67, 0x81, 0x35, 0xFF] @ replicate 31 0 @ [0x01]"

text \<open>Lines 236 and 237: the events, then the return value and the gas used.\<close>

definition Deliver_return ::
  "'s CallContext \<Rightarrow> Exception option \<Rightarrow> bytes \<Rightarrow> uint64 \<Rightarrow> 's CallContext \<times> error option" where
  "Deliver_return ctx exception ret gas =
     (let ctx1 = CallEvents ctx exception
      in (ctx1\<lparr>txe := Return (txe ctx1) ret (tx_GasLimit (tx ctx1) - gas)\<rparr>, None))"

text \<open>
  The parameters of the virtual machine (lines 145 to 150): height, hash and time of
  the chain tip and the constant \<open>GasLimit\<close>. The Go code pads the hash to 32 bytes
  with \<^verbatim>\<open>binary.LeftPadWord256\<close>; the model hands the hash on as it is.
\<close>

definition Deliver_params :: "'s CallContext \<Rightarrow> Params" where
  "Deliver_params ctx =
     \<lparr>BlockHeight = LastBlockHeight (Tip ctx), BlockHash = LastBlockHash (Tip ctx),
      BlockTime = LastBlockTime (Tip ctx), Params_GasLimit = GasLimit\<rparr>"

text \<open>
  Lines 199 to 237: the call of the virtual machine, the second call with the code
  at \<open>erc20Address\<close> and the data written into \<^verbatim>\<open>ctx.tx.Data\<close>, on the gas the first
  call left, and the outcome decided by the exception of the first call alone.
  \<^verbatim>\<open>spentGas\<close>, \<^verbatim>\<open>ret2\<close> and \<^verbatim>\<open>exception2\<close> only reach \<^verbatim>\<open>Use\<close>, which does nothing.
\<close>

definition Deliver_call ::
  "('s, 'c) env \<Rightarrow> 's CallContext \<Rightarrow> Address \<Rightarrow> Address \<Rightarrow> bytes \<Rightarrow> 'c \<Rightarrow> uint64
     \<Rightarrow> 's CallContext \<times> error option" where
  "Deliver_call env ctx caller callee code txCache value =
     (let createContract = (tx_Address (tx ctx) = None);
          gas = tx_GasLimit (tx ctx);
          params = Deliver_params ctx
      in case Call env params caller txCache (txe ctx) caller callee code (Data (tx ctx)) value gas of
           (txCache1, txe1, ret, exception, gas1) \<Rightarrow>
             let codeERC20 = GetCode env txCache1 erc20Address;
                 tx1 = (tx ctx)\<lparr>Data := erc20Data\<rparr>
             in case Call env params caller txCache1 txe1 caller callee codeERC20 (Data tx1) value gas1 of
                  (txCache2, txe2, ret2, exception2, gas2) \<Rightarrow>
                    let ctx2 = ctx\<lparr>tx := tx1, txe := txe2\<rparr>
                    in (case exception of
                          Some e \<Rightarrow>
                            Deliver_return
                              (ctx2\<lparr>txe := PushError txe2 (Exception (ErrorCode e)
                                 (''call error: '' @ ErrorString env e @ [CHR 0x0A] @ ''trace: ''
                                  @ Trace env txe2))\<rparr>)
                              exception ret gas2
                        | None \<Rightarrow>
                            let txCache3 = (if createContract then InitCode env txCache2 callee ret
                                            else txCache2)
                            in (case Sync env txCache3 (StateWriter ctx) of
                                  (s', Some err) \<Rightarrow> (ctx2\<lparr>StateWriter := s'\<rparr>, Some err)
                                | (s', None) \<Rightarrow>
                                    Deliver_return (ctx2\<lparr>StateWriter := s'\<rparr>) exception ret gas2)))"

definition Deliver ::
  "('s, 'c) env \<Rightarrow> 's CallContext \<Rightarrow> Account \<Rightarrow> Account option \<Rightarrow> uint64
     \<Rightarrow> 's CallContext \<times> error option" where
  "Deliver env ctx inAcc outAcc value =
     (let caller = Address inAcc;
          txCache = NewState env (StateWriter ctx)
      in case Deliver_callee env ctx inAcc outAcc txCache of
           Inl exception \<Rightarrow>
             (CallEvents (ctx\<lparr>txe := PushError (txe ctx) exception\<rparr>) (Some exception), None)
         | Inr (callee, code, txCache1) \<Rightarrow>
             Deliver_call env ctx caller callee code txCache1 value)"

subsection \<open>Execute\<close>

text \<open>
  \<^verbatim>\<open>Execute\<close> stores the transaction and the receipt in the context, runs
  \<^verbatim>\<open>Precheck\<close>, and goes on to \<^verbatim>\<open>Deliver\<close> or \<^verbatim>\<open>Check\<close> with
  \<^verbatim>\<open>value := Amount - Fee\<close>. For a payload that is no \<^verbatim>\<open>CallTx\<close> the Go code leaves
  \<^verbatim>\<open>ctx.tx\<close> nil; the model leaves the context as it was.
\<close>

definition Execute ::
  "('s, 'c) env \<Rightarrow> 's CallContext \<Rightarrow> TxExecution \<Rightarrow> Payload \<Rightarrow> 's CallContext \<times> error option" where
  "Execute env ctx txe0 p =
     (case p of
        OtherPayload v \<Rightarrow> (ctx, Some (Errorf (''payload must be CallTx, but is: '' @ v)))
      | CallTxPayload t \<Rightarrow>
          (case Precheck env (ctx\<lparr>tx := t, txe := txe0\<rparr>) of
             (ctx1, Inl err) \<Rightarrow> (ctx1, Some err)
           | (ctx1, Inr (inAcc, outAcc)) \<Rightarrow>
               let value = Amount (Input (tx ctx1)) - Fee (tx ctx1)
               in if RunCall ctx1 then Deliver env ctx1 inAcc outAcc value
                  else Check env ctx1 inAcc value))"

subsection \<open>A small instance of the collaborators\<close>

text \<open>
  An account store kept as an association list, a cache that is a copy of it and is
  written back whole by \<open>Sync\<close>, permissions read from the two lowest permission
  bits, and a toy virtual machine: a call on empty code moves the value from the
  caller to the callee in the cache and costs no gas; a call on code costs 1000 gas
  and either raises an exception (code starting with the byte \<open>0xFD\<close>) or moves
  the value and returns its input.
\<close>

type_synonym store = "(Address \<times> Account) list"

definition put :: "store \<Rightarrow> Account \<Rightarrow> store" where
  "put s acc = (Address acc, acc) # filter (\<lambda>p. fst p \<noteq> Address acc) s"

definition modify :: "store \<Rightarrow> Address \<Rightarrow> (Account \<Rightarrow> Account) \<Rightarrow> store" where
  "modify s a f = (case map_of s a of None \<Rightarrow> s | Some acc \<Rightarrow> put s (f acc))"

definition transfer :: "store \<Rightarrow> Address \<Rightarrow> Address \<Rightarrow> uint64 \<Rightarrow> store" where
  "transfer c sender receiver value =
     modify (modify c sender (\<lambda>a. a\<lparr>Balance := Balance a - value\<rparr>))
       receiver (\<lambda>a. a\<lparr>Balance := Balance a + value\<rparr>)"

definition toy_Call ::
  "Params \<Rightarrow> Address \<Rightarrow> store \<Rightarrow> TxExecution \<Rightarrow> Address \<Rightarrow> Address \<Rightarrow> bytes \<Rightarrow> bytes
     \<Rightarrow> uint64 \<Rightarrow> uint64 \<Rightarrow> store \<times> TxExecution \<times> bytes \<times> Exception option \<times> uint64" where
  "toy_Call params origin c t caller callee code input value gas =
     (case code of
        [] \<Rightarrow> (transfer c caller callee value, t, [], None, gas)
      | b # _ \<Rightarrow>
          if b = 0xFD
          then (c, t, [], Some (Exception (ErrorCodeOther 17) ''execution reverted''), gas - 1000)
          else (transfer c caller callee value, t, input, None, gas - 1000))"

definition toy_env :: "(store, store) env" where
  "toy_env =
     \<lparr>GetAccount = (\<lambda>s a. Inr (map_of s a)),
      UpdateAccount = (\<lambda>s acc. (put s acc, None)),
      hasCreateContractPermission = (\<lambda>s acc. bit (Permissions acc) 0),
      hasCallPermission = (\<lambda>s acc. bit (Permissions acc) 1),
      IsRegisteredNativeContract = (\<lambda>a. a = 0xFF),
      NewContractAddress = (\<lambda>a n. a + ucast n),
      NewState = (\<lambda>s. s),
      IncSequence = (\<lambda>c a. modify c a (\<lambda>acc. acc\<lparr>Sequence := Sequence acc + 1\<rparr>)),
      GetSequence = (\<lambda>c a. case map_of c a of None \<Rightarrow> 0 | Some acc \<Rightarrow> Sequence acc),
      CreateAccount = (\<lambda>c a. put c \<lparr>Address = a, Balance = 0, Sequence = 0, Code = [], Permissions = 0\<rparr>),
      GetCode = (\<lambda>c a. case map_of c a of None \<Rightarrow> [] | Some acc \<Rightarrow> Code acc),
      InitCode = (\<lambda>c a code. modify c a (\<lambda>acc. acc\<lparr>Code := code\<rparr>)),
      Sync = (\<lambda>c s. (c, None)),
      Call = toy_Call,
      Trace = (\<lambda>t. []),
      ErrorString = Description,
      AddressString = (\<lambda>a. ''<address>'')\<rparr>"

text \<open>
  The scenario of section 8 of the specification: an input account with balance 100,
  a contract at address 2, a transaction with amount 20, fee 5 and gas limit 5000.
\<close>

definition alice :: Account where
  "alice = \<lparr>Address = 1, Balance = 100, Sequence = 0, Code = [], Permissions = 3\<rparr>"

definition contract :: Account where
  "contract = \<lparr>Address = 2, Balance = 0, Sequence = 0, Code = [0x60], Permissions = 0\<rparr>"

text \<open>A contract with code at the address of line 205.\<close>

definition token :: Account where
  "token = \<lparr>Address = erc20Address, Balance = 0, Sequence = 0, Code = [0x60], Permissions = 0\<rparr>"

definition toy_tx :: "Address option \<Rightarrow> CallTx" where
  "toy_tx callee =
     \<lparr>Input = \<lparr>Input_Address = 1, Amount = 20\<rparr>, tx_Address = callee, tx_GasLimit = 5000,
      Fee = 5, Data = [1, 2, 3]\<rparr>"

definition empty_txe :: TxExecution where
  "empty_txe = \<lparr>Events = [], Exceptions = [], Result_Return = [], Result_GasUsed = 0\<rparr>"

definition toy_ctx :: "store \<Rightarrow> bool \<Rightarrow> CallTx \<Rightarrow> store CallContext" where
  "toy_ctx s run t =
     \<lparr>Tip = \<lparr>LastBlockHeight = 7, LastBlockHash = [], LastBlockTime = 0\<rparr>,
      StateWriter = s, RunCall = run, tx = t, txe = empty_txe\<rparr>"

section \<open>Properties\<close>

subsection \<open>Frame lemmas\<close>

text \<open>\<^verbatim>\<open>Precheck\<close> writes nothing but the account store.\<close>

lemma Precheck_update_frame:
  "Precheck_update env ctx inAcc outAcc = (ctx', r) \<Longrightarrow> \<exists>s'. ctx' = ctx\<lparr>StateWriter := s'\<rparr>"
  by (auto simp: Precheck_update_def split: prod.splits option.splits)

lemma Precheck_frame:
  "Precheck env ctx = (ctx', r) \<Longrightarrow> \<exists>s'. ctx' = ctx\<lparr>StateWriter := s'\<rparr>"
  apply (simp add: Precheck_def Let_def split: sum.splits option.splits if_splits)
  apply (auto dest: Precheck_update_frame intro: exI[of _ "StateWriter ctx"])
  done

text \<open>
  An error of \<^verbatim>\<open>Precheck\<close> either leaves the whole context as it was, or it is the
  error of \<^verbatim>\<open>UpdateAccount\<close> itself.
\<close>

lemma Precheck_error_cases:
  assumes "Precheck env ctx = (ctx', Inl e)"
  shows "ctx' = ctx
         \<or> (\<exists>acc s'. UpdateAccount env (StateWriter ctx) acc = (s', Some e)
                \<and> ctx' = ctx\<lparr>StateWriter := s'\<rparr>)"
  using assms
  by (auto simp: Precheck_def Precheck_update_def Let_def
           split: sum.splits option.splits if_splits prod.splits)

subsection \<open>Precheck: unknown input address\<close>

text \<open>
  C9. When the account store has no account for the input address of the
  transaction (\<^verbatim>\<open>GetAccount\<close> returns \<^verbatim>\<open>nil, nil\<close>), \<^verbatim>\<open>Precheck\<close> fails with
  \<^verbatim>\<open>ErrorCodeInvalidAddress\<close> and returns the context, so also the account store, as
  it was; the result is the same whatever \<^verbatim>\<open>UpdateAccount\<close> would do, since it is
  never called.
\<close>

theorem Precheck_unknown_input_address:
  assumes "GetAccount env (StateWriter ctx) (Input_Address (Input (tx ctx))) = Inr None"
  shows "Precheck env ctx = (ctx, Inl (CodeError ErrorCodeInvalidAddress))
         \<and> (\<forall>u. Precheck (env\<lparr>UpdateAccount := u\<rparr>) ctx = Precheck env ctx)"
  using assms by (simp add: Precheck_def)

theorem Precheck_unknown_input_address_witness:
  "GetAccount toy_env (StateWriter (toy_ctx [] False (toy_tx None)))
     (Input_Address (Input (tx (toy_ctx [] False (toy_tx None))))) = Inr None
   \<and> Precheck toy_env (toy_ctx [] False (toy_tx None))
       = (toy_ctx [] False (toy_tx None), Inl (CodeError ErrorCodeInvalidAddress))"
proof -
  have h: "GetAccount toy_env (StateWriter (toy_ctx [] False (toy_tx None)))
     (Input_Address (Input (tx (toy_ctx [] False (toy_tx None))))) = Inr None"
    by (simp add: toy_env_def toy_ctx_def toy_tx_def)
  from Precheck_unknown_input_address [OF h] h show ?thesis by simp
qed

subsection \<open>Precheck: fee above amount\<close>

text \<open>
  C8, as the code has it. The account is looked up before the fee is compared with
  the amount. So a transaction whose fee exceeds its amount always fails in
  \<^verbatim>\<open>Precheck\<close> and leaves the context and the account store as they were
  (\<^verbatim>\<open>UpdateAccount\<close> is never called), but the error is
  \<^verbatim>\<open>ErrorCodeInsufficientFunds\<close> only when the input account exists: for an unknown
  input address it is \<^verbatim>\<open>ErrorCodeInvalidAddress\<close>, and an error of the lookup is
  returned as it is.
\<close>

theorem Precheck_fee_exceeds_amount:
  assumes "Amount (Input (tx ctx)) < Fee (tx ctx)"
  shows "Precheck env ctx =
           (ctx, Inl (case GetAccount env (StateWriter ctx) (Input_Address (Input (tx ctx))) of
                        Inl err \<Rightarrow> err
                      | Inr None \<Rightarrow> CodeError ErrorCodeInvalidAddress
                      | Inr (Some acc) \<Rightarrow> CodeError ErrorCodeInsufficientFunds))
         \<and> (\<forall>u. Precheck (env\<lparr>UpdateAccount := u\<rparr>) ctx = Precheck env ctx)"
  using assms by (simp add: Precheck_def split: sum.splits option.splits)

text \<open>Balance 100, amount 20, fee 30: \<^verbatim>\<open>ErrorCodeInsufficientFunds\<close>, store untouched.\<close>

theorem Precheck_fee_exceeds_amount_witness:
  "Amount (Input (tx (toy_ctx [(1, alice)] True ((toy_tx None)\<lparr>Fee := 30\<rparr>))))
     < Fee (tx (toy_ctx [(1, alice)] True ((toy_tx None)\<lparr>Fee := 30\<rparr>)))
   \<and> Precheck toy_env (toy_ctx [(1, alice)] True ((toy_tx None)\<lparr>Fee := 30\<rparr>))
       = (toy_ctx [(1, alice)] True ((toy_tx None)\<lparr>Fee := 30\<rparr>),
          Inl (CodeError ErrorCodeInsufficientFunds))"
proof -
  have h: "Amount (Input (tx (toy_ctx [(1, alice)] True ((toy_tx None)\<lparr>Fee := 30\<rparr>))))
             < Fee (tx (toy_ctx [(1, alice)] True ((toy_tx None)\<lparr>Fee := 30\<rparr>)))"
    by (simp add: toy_ctx_def toy_tx_def)
  from Precheck_fee_exceeds_amount [OF h, of toy_env] h show ?thesis
    by (simp add: toy_env_def toy_ctx_def toy_tx_def)
qed

text \<open>
  The claim as it is written fails where the input address is unknown: amount 20,
  fee 30 and an empty store give \<^verbatim>\<open>ErrorCodeInvalidAddress\<close>.
\<close>

theorem Precheck_fee_exceeds_amount_counterexample:
  "Amount (Input (tx (toy_ctx [] True ((toy_tx None)\<lparr>Fee := 30\<rparr>))))
     < Fee (tx (toy_ctx [] True ((toy_tx None)\<lparr>Fee := 30\<rparr>)))
   \<and> Precheck toy_env (toy_ctx [] True ((toy_tx None)\<lparr>Fee := 30\<rparr>))
       = (toy_ctx [] True ((toy_tx None)\<lparr>Fee := 30\<rparr>), Inl (CodeError ErrorCodeInvalidAddress))
   \<and> CodeError ErrorCodeInvalidAddress \<noteq> CodeError ErrorCodeInsufficientFunds"
  by (simp add: Precheck_def toy_env_def toy_ctx_def toy_tx_def)

subsection \<open>Precheck: every failure before the update\<close>

text \<open>
  C10. On each failure path of \<^verbatim>\<open>Precheck\<close> that the claim lists (no input
  account; fee above amount; a creation without the CreateContract permission; a
  call without the Call permission; a call of a registered native contract)
  \<^verbatim>\<open>Precheck\<close> returns an error together with the unchanged context, and it does so
  for every \<^verbatim>\<open>UpdateAccount\<close> one may put in its place: the account store is not
  written and \<^verbatim>\<open>UpdateAccount\<close> is not called.
\<close>

theorem Precheck_failure_before_update:
  assumes "GetAccount env (StateWriter ctx) (Input_Address (Input (tx ctx))) = Inr None
         \<or> Amount (Input (tx ctx)) < Fee (tx ctx)
         \<or> (\<exists>acc. GetAccount env (StateWriter ctx) (Input_Address (Input (tx ctx))) = Inr (Some acc)
               \<and> tx_Address (tx ctx) = None
               \<and> \<not> hasCreateContractPermission env (StateWriter ctx)
                     (acc\<lparr>Balance := Balance acc - Fee (tx ctx)\<rparr>))
         \<or> (\<exists>acc callee. GetAccount env (StateWriter ctx) (Input_Address (Input (tx ctx))) = Inr (Some acc)
               \<and> tx_Address (tx ctx) = Some callee
               \<and> (\<not> hasCallPermission env (StateWriter ctx)
                       (acc\<lparr>Balance := Balance acc - Fee (tx ctx)\<rparr>)
                    \<or> IsRegisteredNativeContract env callee))"
  shows "\<exists>e. \<forall>u. Precheck (env\<lparr>UpdateAccount := u\<rparr>) ctx = (ctx, Inl e)"
proof (cases "GetAccount env (StateWriter ctx) (Input_Address (Input (tx ctx)))")
  case (Inl err)
  then show ?thesis by (simp add: Precheck_def)
next
  case (Inr found)
  show ?thesis
  proof (cases found)
    case None
    with Inr show ?thesis by (simp add: Precheck_def)
  next
    case (Some acc)
    show ?thesis
    proof (cases "Amount (Input (tx ctx)) < Fee (tx ctx)")
      case True
      with Inr Some show ?thesis by (simp add: Precheck_def)
    next
      case False
      show ?thesis
      proof (cases "tx_Address (tx ctx)")
        case None
        with assms Inr Some False
        have "\<not> hasCreateContractPermission env (StateWriter ctx)
                 (acc\<lparr>Balance := Balance acc - Fee (tx ctx)\<rparr>)"
          by auto
        with Inr Some False None show ?thesis by (simp add: Precheck_def)
      next
        case (Some callee)
        with assms Inr \<open>found = Some acc\<close> False
        have "\<not> hasCallPermission env (StateWriter ctx) (acc\<lparr>Balance := Balance acc - Fee (tx ctx)\<rparr>)
              \<or> IsRegisteredNativeContract env callee"
          by auto
        with Inr \<open>found = Some acc\<close> False Some show ?thesis
          by (cases "hasCallPermission env (StateWriter ctx)
                       (acc\<lparr>Balance := Balance acc - Fee (tx ctx)\<rparr>)")
             (simp_all add: Precheck_def Let_def)
      qed
    qed
  qed
qed

text \<open>One input for each of the five paths.\<close>

theorem Precheck_failure_before_update_witness:
  "(\<exists>e. \<forall>u. Precheck (toy_env\<lparr>UpdateAccount := u\<rparr>) (toy_ctx [] True (toy_tx None))
             = (toy_ctx [] True (toy_tx None), Inl e))
   \<and> (\<exists>e. \<forall>u. Precheck (toy_env\<lparr>UpdateAccount := u\<rparr>) (toy_ctx [(1, alice)] True ((toy_tx None)\<lparr>Fee := 30\<rparr>))
             = (toy_ctx [(1, alice)] True ((toy_tx None)\<lparr>Fee := 30\<rparr>), Inl e))
   \<and> (\<exists>e. \<forall>u. Precheck (toy_env\<lparr>UpdateAccount := u\<rparr>) (toy_ctx [(1, alice\<lparr>Permissions := 0\<rparr>)] True (toy_tx None))
             = (toy_ctx [(1, alice\<lparr>Permissions := 0\<rparr>)] True (toy_tx None), Inl e))
   \<and> (\<exists>e. \<forall>u. Precheck (toy_env\<lparr>UpdateAccount := u\<rparr>) (toy_ctx [(1, alice\<lparr>Permissions := 0\<rparr>)] True (toy_tx (Some 2)))
             = (toy_ctx [(1, alice\<lparr>Permissions := 0\<rparr>)] True (toy_tx (Some 2)), Inl e))
   \<and> (\<exists>e. \<forall>u. Precheck (toy_env\<lparr>UpdateAccount := u\<rparr>) (toy_ctx [(1, alice)] True (toy_tx (Some 0xFF)))
             = (toy_ctx [(1, alice)] True (toy_tx (Some 0xFF)), Inl e))"
proof (intro conjI)
  show "\<exists>e. \<forall>u. Precheck (toy_env\<lparr>UpdateAccount := u\<rparr>) (toy_ctx [] True (toy_tx None))
             = (toy_ctx [] True (toy_tx None), Inl e)"
    by (rule Precheck_failure_before_update) (simp add: toy_env_def toy_ctx_def toy_tx_def)
  show "\<exists>e. \<forall>u. Precheck (toy_env\<lparr>UpdateAccount := u\<rparr>) (toy_ctx [(1, alice)] True ((toy_tx None)\<lparr>Fee := 30\<rparr>))
             = (toy_ctx [(1, alice)] True ((toy_tx None)\<lparr>Fee := 30\<rparr>), Inl e)"
    by (rule Precheck_failure_before_update) (simp add: toy_env_def toy_ctx_def toy_tx_def)
  show "\<exists>e. \<forall>u. Precheck (toy_env\<lparr>UpdateAccount := u\<rparr>) (toy_ctx [(1, alice\<lparr>Permissions := 0\<rparr>)] True (toy_tx None))
             = (toy_ctx [(1, alice\<lparr>Permissions := 0\<rparr>)] True (toy_tx None), Inl e)"
    by (rule Precheck_failure_before_update) (simp add: toy_env_def toy_ctx_def toy_tx_def alice_def)
  show "\<exists>e. \<forall>u. Precheck (toy_env\<lparr>UpdateAccount := u\<rparr>) (toy_ctx [(1, alice\<lparr>Permissions := 0\<rparr>)] True (toy_tx (Some 2)))
             = (toy_ctx [(1, alice\<lparr>Permissions := 0\<rparr>)] True (toy_tx (Some 2)), Inl e)"
    by (rule Precheck_failure_before_update) (simp add: toy_env_def toy_ctx_def toy_tx_def alice_def)
  show "\<exists>e. \<forall>u. Precheck (toy_env\<lparr>UpdateAccount := u\<rparr>) (toy_ctx [(1, alice)] True (toy_tx (Some 0xFF)))
             = (toy_ctx [(1, alice)] True (toy_tx (Some 0xFF)), Inl e)"
    by (rule Precheck_failure_before_update) (simp add: toy_env_def toy_ctx_def toy_tx_def alice_def)
qed

subsection \<open>Precheck and Check: the balance is never compared\<close>

lemma unat_sub_wrap:
  fixes a b :: uint64
  assumes "a < b"
  shows "unat (a - b) = unat a + 2 ^ 64 - unat b"
  using assms by (simp add: unat_sub_if_size word_less_nat_alt word_size)

lemma unat_sub_cases:
  fixes a b :: uint64
  shows "unat (a - b) = (if b \<le> a then unat a - unat b else unat a + 2 ^ 64 - unat b)"
  by (simp add: unat_sub_if_size word_le_nat_alt word_size)

text \<open>\<^verbatim>\<open>Check\<close> in one equation: the account it hands to \<^verbatim>\<open>UpdateAccount\<close>.\<close>

lemma Check_eq:
  "Check env ctx inAcc value =
     (case UpdateAccount env (StateWriter ctx)
             (inAcc\<lparr>Balance := Balance inAcc - value,
                    Sequence := (if tx_Address (tx ctx) = None then Sequence inAcc + 1
                                 else Sequence inAcc)\<rparr>) of
        (s', err) \<Rightarrow> (ctx\<lparr>StateWriter := s'\<rparr>, err))"
  by (simp add: Check_def Let_def)

text \<open>
  C5. \<^verbatim>\<open>Precheck\<close> compares the fee with the amount of the transaction only, never
  with the balance of the input account. For an input account whose balance is below
  the fee, with the fee not above the amount and the permission and callee checks
  passing, \<^verbatim>\<open>Precheck\<close> succeeds and hands \<^verbatim>\<open>UpdateAccount\<close> the balance
  \<open>balance - fee\<close> wrapped modulo \<open>2 ^ 64\<close>, that is \<open>balance + 2 ^ 64 - fee\<close>.
  \<^verbatim>\<open>Check\<close> subtracts the value in the same way, with no comparison: what it
  persists is \<open>balance - value\<close> as a 64-bit word, which wraps when the value is
  above the balance.
\<close>

theorem Precheck_balance_below_fee:
  assumes "GetAccount env (StateWriter ctx) (Input_Address (Input (tx ctx))) = Inr (Some acc)"
      and "Balance acc < Fee (tx ctx)"
      and "Fee (tx ctx) \<le> Amount (Input (tx ctx))"
      and "case tx_Address (tx ctx) of
             None \<Rightarrow>
               hasCreateContractPermission env (StateWriter ctx)
                 (acc\<lparr>Balance := Balance acc - Fee (tx ctx)\<rparr>)
               \<and> outAcc = None
           | Some callee \<Rightarrow>
               hasCallPermission env (StateWriter ctx) (acc\<lparr>Balance := Balance acc - Fee (tx ctx)\<rparr>)
               \<and> \<not> IsRegisteredNativeContract env callee
               \<and> GetAccount env (StateWriter ctx) callee = Inr outAcc"
      and "UpdateAccount env (StateWriter ctx) (acc\<lparr>Balance := Balance acc - Fee (tx ctx)\<rparr>) = (s', None)"
  shows "Precheck env ctx
           = (ctx\<lparr>StateWriter := s'\<rparr>, Inr (acc\<lparr>Balance := Balance acc - Fee (tx ctx)\<rparr>, outAcc))
         \<and> unat (Balance acc - Fee (tx ctx)) = unat (Balance acc) + 2 ^ 64 - unat (Fee (tx ctx))
         \<and> Check env ctx inAcc value
             = (case UpdateAccount env (StateWriter ctx)
                       (inAcc\<lparr>Balance := Balance inAcc - value,
                              Sequence := (if tx_Address (tx ctx) = None then Sequence inAcc + 1
                                           else Sequence inAcc)\<rparr>) of
                  (s, err) \<Rightarrow> (ctx\<lparr>StateWriter := s\<rparr>, err))
         \<and> unat (Balance inAcc - value)
             = (if value \<le> Balance inAcc then unat (Balance inAcc) - unat value
                else unat (Balance inAcc) + 2 ^ 64 - unat value)"
proof (intro conjI)
  from assms(3) have nlt: "\<not> Amount (Input (tx ctx)) < Fee (tx ctx)" by simp
  show "Precheck env ctx
           = (ctx\<lparr>StateWriter := s'\<rparr>, Inr (acc\<lparr>Balance := Balance acc - Fee (tx ctx)\<rparr>, outAcc))"
    using assms(1,4,5) nlt
    by (cases "tx_Address (tx ctx)") (simp_all add: Precheck_def Precheck_update_def Let_def)
  show "unat (Balance acc - Fee (tx ctx)) = unat (Balance acc) + 2 ^ 64 - unat (Fee (tx ctx))"
    using assms(2) by (rule unat_sub_wrap)
  show "Check env ctx inAcc value
             = (case UpdateAccount env (StateWriter ctx)
                       (inAcc\<lparr>Balance := Balance inAcc - value,
                              Sequence := (if tx_Address (tx ctx) = None then Sequence inAcc + 1
                                           else Sequence inAcc)\<rparr>) of
                  (s, err) \<Rightarrow> (ctx\<lparr>StateWriter := s\<rparr>, err))"
    by (rule Check_eq)
  show "unat (Balance inAcc - value)
             = (if value \<le> Balance inAcc then unat (Balance inAcc) - unat value
                else unat (Balance inAcc) + 2 ^ 64 - unat value)"
    by (rule unat_sub_cases)
qed

text \<open>
  Balance 3, fee 5, amount 20: \<^verbatim>\<open>Precheck\<close> persists the balance \<open>2 ^ 64 - 2\<close>; and
  \<^verbatim>\<open>Check\<close> with balance 3 and value 15 persists \<open>2 ^ 64 - 12\<close>.
\<close>

theorem Precheck_balance_below_fee_witness:
  "Balance (alice\<lparr>Balance := 3\<rparr>) < Fee (toy_tx None)
   \<and> Precheck toy_env (toy_ctx [(1, alice\<lparr>Balance := 3\<rparr>)] False (toy_tx None))
       = (toy_ctx [(1, alice\<lparr>Balance := 18446744073709551614\<rparr>)] False (toy_tx None),
          Inr (alice\<lparr>Balance := 18446744073709551614\<rparr>, None))
   \<and> unat (Balance (alice\<lparr>Balance := 3\<rparr>) - Fee (toy_tx None)) = 3 + 2 ^ 64 - 5
   \<and> Check toy_env (toy_ctx [(1, alice\<lparr>Balance := 3\<rparr>)] False (toy_tx None)) (alice\<lparr>Balance := 3\<rparr>) 15
       = (toy_ctx [(1, alice\<lparr>Balance := 18446744073709551604, Sequence := 1\<rparr>)] False (toy_tx None),
          None)"
  using Precheck_balance_below_fee [of toy_env "toy_ctx [(1, alice\<lparr>Balance := 3\<rparr>)] False (toy_tx None)"
          "alice\<lparr>Balance := 3\<rparr>" None "[(1, alice\<lparr>Balance := 18446744073709551614\<rparr>)]"
          "alice\<lparr>Balance := 3\<rparr>" 15]
  by (simp add: toy_env_def toy_ctx_def toy_tx_def alice_def put_def)

subsection \<open>Check: the mempool path\<close>

lemma Precheck_success:
  assumes "Precheck env ctx = (ctx1, Inr (inAcc, outAcc))"
  shows "\<exists>acc. GetAccount env (StateWriter ctx) (Input_Address (Input (tx ctx))) = Inr (Some acc)
           \<and> inAcc = acc\<lparr>Balance := Balance acc - Fee (tx ctx)\<rparr>
           \<and> Fee (tx ctx) \<le> Amount (Input (tx ctx))
           \<and> UpdateAccount env (StateWriter ctx) inAcc = (StateWriter ctx1, None)"
  using assms
  by (auto simp: Precheck_def Precheck_update_def Let_def
           split: sum.splits option.splits if_splits prod.splits)

lemma Precheck_update_Call_indep:
  "Precheck_update (env\<lparr>Call := vm\<rparr>) ctx inAcc outAcc = Precheck_update env ctx inAcc outAcc"
  by (simp add: Precheck_update_def)

lemma Precheck_Call_indep:
  "Precheck (env\<lparr>Call := vm\<rparr>) ctx = Precheck env ctx"
  by (simp add: Precheck_def Precheck_update_Call_indep Let_def
           split: sum.splits option.splits)

lemma Check_Call_indep:
  "Check (env\<lparr>Call := vm\<rparr>) ctx inAcc value = Check env ctx inAcc value"
  by (simp add: Check_def)

lemma Check_frame:
  "tx (fst (Check env ctx inAcc value)) = tx ctx \<and> txe (fst (Check env ctx inAcc value)) = txe ctx"
  by (simp add: Check_def Let_def split: prod.splits)

text \<open>
  C7. When \<^verbatim>\<open>RunCall\<close> is false and \<^verbatim>\<open>Precheck\<close> has succeeded, \<^verbatim>\<open>Execute\<close> is
  \<^verbatim>\<open>Check\<close> on the account \<^verbatim>\<open>Precheck\<close> returned, which is the stored input account
  with the fee already deducted, and on the value \<open>Amount - Fee\<close>. \<^verbatim>\<open>Check\<close> hands
  \<^verbatim>\<open>UpdateAccount\<close> that account with the value subtracted from its balance and,
  exactly when the transaction has no callee, its sequence number incremented; the
  result is the store and the error of \<^verbatim>\<open>UpdateAccount\<close>. The receipt and the
  transaction are left as they were handed in, and the result is the same for every
  virtual machine put in place of \<open>Call\<close>: it is never invoked.
\<close>

theorem Execute_Check_path:
  assumes "\<not> RunCall ctx"
      and "Precheck env (ctx\<lparr>tx := t, txe := txe0\<rparr>) = (ctx1, Inr (inAcc, outAcc))"
  shows "Execute env ctx txe0 (CallTxPayload t) = Check env ctx1 inAcc (Amount (Input t) - Fee t)
         \<and> (\<exists>acc. GetAccount env (StateWriter ctx) (Input_Address (Input t)) = Inr (Some acc)
                \<and> inAcc = acc\<lparr>Balance := Balance acc - Fee t\<rparr>)
         \<and> Check env ctx1 inAcc value
             = (case UpdateAccount env (StateWriter ctx1)
                       (inAcc\<lparr>Balance := Balance inAcc - value,
                              Sequence := (if tx_Address t = None then Sequence inAcc + 1
                                           else Sequence inAcc)\<rparr>) of
                  (s', err) \<Rightarrow> (ctx1\<lparr>StateWriter := s'\<rparr>, err))
         \<and> txe (fst (Execute env ctx txe0 (CallTxPayload t))) = txe0
         \<and> tx (fst (Execute env ctx txe0 (CallTxPayload t))) = t
         \<and> (\<forall>vm. Execute (env\<lparr>Call := vm\<rparr>) ctx txe0 (CallTxPayload t)
                   = Execute env ctx txe0 (CallTxPayload t))"
proof -
  from Precheck_frame [OF assms(2)] obtain s' where
    ctx1: "ctx1 = ctx\<lparr>tx := t, txe := txe0, StateWriter := s'\<rparr>" by auto
  with assms(1) have run: "\<not> RunCall ctx1" and t: "tx ctx1 = t" and e: "txe ctx1 = txe0"
    by simp_all
  have ex: "Execute env ctx txe0 (CallTxPayload t) = Check env ctx1 inAcc (Amount (Input t) - Fee t)"
    using assms(2) run t by (simp add: Execute_def Let_def)
  have indep: "Execute (env\<lparr>Call := vm\<rparr>) ctx txe0 (CallTxPayload t)
                 = Execute env ctx txe0 (CallTxPayload t)" for vm
    using assms(2) run t by (simp add: Execute_def Let_def Precheck_Call_indep Check_Call_indep)
  from Precheck_success [OF assms(2)]
  have acc: "\<exists>acc. GetAccount env (StateWriter ctx) (Input_Address (Input t)) = Inr (Some acc)
                \<and> inAcc = acc\<lparr>Balance := Balance acc - Fee t\<rparr>"
    by auto
  show ?thesis
    using ex acc indep Check_eq [of env ctx1 inAcc "value"]
      Check_frame [of env ctx1 inAcc "Amount (Input t) - Fee t"] t e
    by simp
qed

text \<open>
  Balance 100, amount 20, fee 5, a creation: the account is persisted with balance 80
  and sequence 1, the receipt stays empty.
\<close>

theorem Execute_Check_path_witness:
  "\<not> RunCall (toy_ctx [(1, alice), (2, contract)] False (toy_tx (Some 2)))
   \<and> Execute toy_env (toy_ctx [(1, alice), (2, contract)] False (toy_tx (Some 2))) empty_txe
        (CallTxPayload (toy_tx None))
       = (toy_ctx [(1, alice\<lparr>Balance := 80, Sequence := 1\<rparr>), (2, contract)] False (toy_tx None), None)"
proof -
  have p: "Precheck toy_env ((toy_ctx [(1, alice), (2, contract)] False (toy_tx (Some 2)))
                               \<lparr>tx := toy_tx None, txe := empty_txe\<rparr>)
             = (toy_ctx [(1, alice\<lparr>Balance := 95\<rparr>), (2, contract)] False (toy_tx None),
                Inr (alice\<lparr>Balance := 95\<rparr>, None))"
    by (simp add: Precheck_def Precheck_update_def Let_def toy_env_def toy_ctx_def toy_tx_def
                  alice_def contract_def put_def)
  have r: "\<not> RunCall (toy_ctx [(1, alice), (2, contract)] False (toy_tx (Some 2)))"
    by (simp add: toy_ctx_def)
  from Execute_Check_path [OF r p, of 15] r show ?thesis
    by (simp add: toy_env_def toy_ctx_def toy_tx_def alice_def contract_def put_def)
qed

subsection \<open>Deliver: a target without code\<close>

lemma Deliver_callee_Call_indep:
  "Deliver_callee (env\<lparr>Call := vm\<rparr>) ctx inAcc outAcc c = Deliver_callee env ctx inAcc outAcc c"
  by (simp add: Deliver_callee_def Let_def split: option.splits)

lemma Deliver_callee_no_code:
  assumes "tx_Address (tx ctx) = Some target"
      and "outAcc = None \<or> (\<exists>out. outAcc = Some out \<and> Code out = [])"
  shows "\<exists>msg. Deliver_callee env ctx inAcc outAcc c = Inl (Exception ErrorCodeInvalidAddress msg)"
  using assms by (cases outAcc) (auto simp: Deliver_callee_def)

lemma Deliver_no_call:
  assumes "Deliver_callee env ctx inAcc outAcc (NewState env (StateWriter ctx)) = Inl exc"
      and "tx_Address (tx ctx) = Some target"
  shows "Deliver env ctx inAcc outAcc value
           = (ctx\<lparr>txe := (txe ctx)
                 \<lparr>Exceptions := Exceptions (txe ctx) @ [exc],
                  Events := Events (txe ctx)
                    @ [InputEvent (Input_Address (Input (tx ctx))) (Some exc),
                       InputEvent target (Some exc)]\<rparr>\<rparr>, None)"
  using assms
  by (simp add: Deliver_def CallEvents_def PushError_def TxExecution_Input_def Let_def)

text \<open>
  C3. For a call (the transaction names a callee) whose target account is missing
  or holds no code, \<^verbatim>\<open>Deliver\<close> returns \<^verbatim>\<open>nil\<close> and changes nothing but the
  receipt: an exception with code \<^verbatim>\<open>ErrorCodeInvalidAddress\<close> is appended to its
  errors, and an input event carrying that exception is appended for the sender and
  then for the receiver. The account store is as \<^verbatim>\<open>Precheck\<close> left it, so the fee
  stands and no value has moved, and the result is the same for every virtual
  machine: it is not invoked.
\<close>

theorem Deliver_missing_or_codeless_target:
  assumes "tx_Address (tx ctx) = Some target"
      and "outAcc = None \<or> (\<exists>out. outAcc = Some out \<and> Code out = [])"
  shows "\<exists>exc. ErrorCode exc = ErrorCodeInvalidAddress
           \<and> Deliver env ctx inAcc outAcc value
               = (ctx\<lparr>txe := (txe ctx)
                    \<lparr>Exceptions := Exceptions (txe ctx) @ [exc],
                     Events := Events (txe ctx)
                       @ [InputEvent (Input_Address (Input (tx ctx))) (Some exc),
                          InputEvent target (Some exc)]\<rparr>\<rparr>, None)
           \<and> (\<forall>vm. Deliver (env\<lparr>Call := vm\<rparr>) ctx inAcc outAcc value
                     = Deliver env ctx inAcc outAcc value)"
proof -
  from Deliver_callee_no_code [OF assms, of env inAcc "NewState env (StateWriter ctx)"] obtain msg where
    c: "Deliver_callee env ctx inAcc outAcc (NewState env (StateWriter ctx))
          = Inl (Exception ErrorCodeInvalidAddress msg)"
    by blast
  have "Deliver (env\<lparr>Call := vm\<rparr>) ctx inAcc outAcc value = Deliver env ctx inAcc outAcc value" for vm
    using c by (simp add: Deliver_def Deliver_callee_Call_indep)
  with Deliver_no_call [OF c assms(1)] show ?thesis
    by (intro exI [of _ "Exception ErrorCodeInvalidAddress msg"]) simp
qed

text \<open>A missing target, and a target that holds no code.\<close>

theorem Deliver_missing_or_codeless_target_witness:
  "Deliver toy_env (toy_ctx [(1, alice\<lparr>Balance := 95\<rparr>)] True (toy_tx (Some 2)))
       (alice\<lparr>Balance := 95\<rparr>) None 15
     = ((toy_ctx [(1, alice\<lparr>Balance := 95\<rparr>)] True (toy_tx (Some 2)))
          \<lparr>txe := \<lparr>Events =
                     [InputEvent 1 (Some (Exception ErrorCodeInvalidAddress
                        ''CallTx to an address (<address>) that does not exist'')),
                      InputEvent 2 (Some (Exception ErrorCodeInvalidAddress
                        ''CallTx to an address (<address>) that does not exist''))],
                   Exceptions = [Exception ErrorCodeInvalidAddress
                        ''CallTx to an address (<address>) that does not exist''],
                   Result_Return = [], Result_GasUsed = 0\<rparr>\<rparr>, None)
   \<and> Deliver toy_env (toy_ctx [(1, alice\<lparr>Balance := 95\<rparr>), (2, contract\<lparr>Code := []\<rparr>)] True (toy_tx (Some 2)))
       (alice\<lparr>Balance := 95\<rparr>) (Some (contract\<lparr>Code := []\<rparr>)) 15
     = ((toy_ctx [(1, alice\<lparr>Balance := 95\<rparr>), (2, contract\<lparr>Code := []\<rparr>)] True (toy_tx (Some 2)))
          \<lparr>txe := \<lparr>Events =
                     [InputEvent 1 (Some (Exception ErrorCodeInvalidAddress
                        ''CallTx to an address (<address>) that holds no code'')),
                      InputEvent 2 (Some (Exception ErrorCodeInvalidAddress
                        ''CallTx to an address (<address>) that holds no code''))],
                   Exceptions = [Exception ErrorCodeInvalidAddress
                        ''CallTx to an address (<address>) that holds no code''],
                   Result_Return = [], Result_GasUsed = 0\<rparr>\<rparr>, None)"
proof -
  have t: "tx_Address (tx (toy_ctx s True (toy_tx (Some 2)))) = Some 2" for s
    by (simp add: toy_ctx_def toy_tx_def)
  have h2: "Some (contract\<lparr>Code := []\<rparr>) = None
            \<or> (\<exists>out. Some (contract\<lparr>Code := []\<rparr>) = Some out \<and> Code out = [])"
    by simp
  have h1: "(None :: Account option) = None \<or> (\<exists>out. None = Some out \<and> Code out = [])"
    by simp
  from Deliver_missing_or_codeless_target [OF t h1, of toy_env "[(1, alice\<lparr>Balance := 95\<rparr>)]"
          "alice\<lparr>Balance := 95\<rparr>" 15]
       Deliver_missing_or_codeless_target [OF t h2, of toy_env
          "[(1, alice\<lparr>Balance := 95\<rparr>), (2, contract\<lparr>Code := []\<rparr>)]" "alice\<lparr>Balance := 95\<rparr>" 15]
  show ?thesis
    by (simp add: Deliver_def Deliver_callee_def CallEvents_def PushError_def TxExecution_Input_def
           Let_def toy_env_def toy_ctx_def toy_tx_def empty_txe_def contract_def)
qed

subsection \<open>Deliver: an exception of the virtual machine\<close>

lemma Deliver_callee_Sync_indep:
  "Deliver_callee (env\<lparr>Sync := f\<rparr>) ctx inAcc outAcc c = Deliver_callee env ctx inAcc outAcc c"
  by (simp add: Deliver_callee_def Let_def split: option.splits)

text \<open>The last two statements of \<^verbatim>\<open>Deliver\<close> touch the receipt only and return \<^verbatim>\<open>nil\<close>.\<close>

lemma Deliver_return_eq:
  "Deliver_return ctx exception ret gas = (ctx', r) \<Longrightarrow>
     r = None \<and> StateWriter ctx' = StateWriter ctx \<and> tx ctx' = tx ctx
     \<and> Exceptions (txe ctx') = Exceptions (txe ctx)
     \<and> Result_Return (txe ctx') = ret
     \<and> Result_GasUsed (txe ctx') = tx_GasLimit (tx ctx) - gas"
  by (auto simp: Deliver_return_def CallEvents_def TxExecution_Input_def Return_def Let_def
           split: option.splits)

lemma Deliver_call_exception:
  assumes "Call env (Deliver_params ctx) caller txCache (txe ctx) caller callee code
             (Data (tx ctx)) value (tx_GasLimit (tx ctx)) = (txCache1, txe1, ret, Some e, gas1)"
      and "Call env (Deliver_params ctx) caller txCache1 txe1 caller callee
             (GetCode env txCache1 erc20Address) erc20Data value gas1
             = (txCache2, txe2, ret2, exception2, gas2)"
  shows "Deliver_call env ctx caller callee code txCache value
           = Deliver_return
               (ctx\<lparr>tx := (tx ctx)\<lparr>Data := erc20Data\<rparr>,
                    txe := PushError txe2 (Exception (ErrorCode e)
                             (''call error: '' @ ErrorString env e @ [CHR 0x0A] @ ''trace: ''
                              @ Trace env txe2))\<rparr>)
               (Some e) ret gas2"
  using assms by (simp add: Deliver_call_def Let_def)

text \<open>
  C2. Let \<^verbatim>\<open>Deliver\<close> reach the virtual machine (a creation, or a call of an account
  with code), and let the call on the code of the callee return an exception \<open>e\<close>.
  Then \<^verbatim>\<open>Deliver\<close> returns \<^verbatim>\<open>nil\<close>; the account store is the one it was given, that
  is the store \<^verbatim>\<open>Precheck\<close> left with the fee charged, so no balance in it has
  changed; the receipt, as the virtual machine left it, has one more error, with the
  code of \<open>e\<close> and the text of \<open>e\<close> followed by the execution trace; and the result
  is the same for every \<open>Sync\<close>: the cache is not flushed to the store. The third
  premise only names what the second call, the one on the code at \<open>erc20Address\<close>,
  returns.
\<close>

theorem Deliver_vm_exception:
  assumes "Deliver_callee env ctx inAcc outAcc (NewState env (StateWriter ctx))
             = Inr (callee, code, txCache)"
      and "Call env (Deliver_params ctx) (Address inAcc) txCache (txe ctx) (Address inAcc) callee code
             (Data (tx ctx)) value (tx_GasLimit (tx ctx)) = (txCache1, txe1, ret, Some e, gas1)"
      and "Call env (Deliver_params ctx) (Address inAcc) txCache1 txe1 (Address inAcc) callee
             (GetCode env txCache1 erc20Address) erc20Data value gas1
             = (txCache2, txe2, ret2, exception2, gas2)"
  shows "\<exists>ctx'. Deliver env ctx inAcc outAcc value = (ctx', None)
           \<and> StateWriter ctx' = StateWriter ctx
           \<and> Exceptions (txe ctx')
               = Exceptions txe2
                 @ [Exception (ErrorCode e)
                      (''call error: '' @ ErrorString env e @ [CHR 0x0A] @ ''trace: '' @ Trace env txe2)]
           \<and> (\<forall>f. Deliver (env\<lparr>Sync := f\<rparr>) ctx inAcc outAcc value
                    = Deliver env ctx inAcc outAcc value)"
proof -
  let ?exc = "Exception (ErrorCode e)
                (''call error: '' @ ErrorString env e @ [CHR 0x0A] @ ''trace: '' @ Trace env txe2)"
  let ?ctx2 = "ctx\<lparr>tx := (tx ctx)\<lparr>Data := erc20Data\<rparr>, txe := PushError txe2 ?exc\<rparr>"
  have d: "Deliver env ctx inAcc outAcc value = Deliver_return ?ctx2 (Some e) ret gas2"
    using assms(1) Deliver_call_exception [OF assms(2,3)] by (simp add: Deliver_def Let_def)
  have i: "Deliver (env\<lparr>Sync := f\<rparr>) ctx inAcc outAcc value = Deliver_return ?ctx2 (Some e) ret gas2" for f
    using assms(1)
      Deliver_call_exception [of "env\<lparr>Sync := f\<rparr>" ctx "Address inAcc" txCache callee code "value"
         txCache1 txe1 ret e gas1 txCache2 txe2 ret2 exception2 gas2] assms(2,3)
    by (simp add: Deliver_def Let_def Deliver_callee_Sync_indep)
  obtain ctx' r where r: "Deliver_return ?ctx2 (Some e) ret gas2 = (ctx', r)"
    by (cases "Deliver_return ?ctx2 (Some e) ret gas2")
  from Deliver_return_eq [OF r] d i r show ?thesis
    by (simp add: PushError_def)
qed

text \<open>
  A contract whose code starts with \<open>0xFD\<close>: the toy machine raises on the first
  call and moves the value in the cache on the second, the one on the (here empty)
  code at \<open>erc20Address\<close>; the store stays as it was.
\<close>

theorem Deliver_vm_exception_witness:
  "StateWriter (fst (Deliver toy_env
       (toy_ctx [(1, alice\<lparr>Balance := 95\<rparr>), (2, contract\<lparr>Code := [0xFD]\<rparr>)] True (toy_tx (Some 2)))
       (alice\<lparr>Balance := 95\<rparr>) (Some (contract\<lparr>Code := [0xFD]\<rparr>)) 15))
     = [(1, alice\<lparr>Balance := 95\<rparr>), (2, contract\<lparr>Code := [0xFD]\<rparr>)]
   \<and> snd (Deliver toy_env
       (toy_ctx [(1, alice\<lparr>Balance := 95\<rparr>), (2, contract\<lparr>Code := [0xFD]\<rparr>)] True (toy_tx (Some 2)))
       (alice\<lparr>Balance := 95\<rparr>) (Some (contract\<lparr>Code := [0xFD]\<rparr>)) 15) = None
   \<and> Exceptions (txe (fst (Deliver toy_env
       (toy_ctx [(1, alice\<lparr>Balance := 95\<rparr>), (2, contract\<lparr>Code := [0xFD]\<rparr>)] True (toy_tx (Some 2)))
       (alice\<lparr>Balance := 95\<rparr>) (Some (contract\<lparr>Code := [0xFD]\<rparr>)) 15)))
     = [Exception (ErrorCodeOther 17) (''call error: execution reverted'' @ [CHR 0x0A] @ ''trace: '')]"
proof -
  let ?s = "[(1, alice\<lparr>Balance := 95\<rparr>), (2, contract\<lparr>Code := [0xFD]\<rparr>)]"
  let ?ctx = "toy_ctx ?s True (toy_tx (Some 2))"
  let ?s2 = "[(2, contract\<lparr>Code := [0xFD], Balance := 15\<rparr>), (1, alice\<lparr>Balance := 80\<rparr>)]"
  have h1: "Deliver_callee toy_env ?ctx (alice\<lparr>Balance := 95\<rparr>) (Some (contract\<lparr>Code := [0xFD]\<rparr>))
              (NewState toy_env (StateWriter ?ctx)) = Inr (2, [0xFD], ?s)"
    by (simp add: Deliver_callee_def toy_env_def toy_ctx_def toy_tx_def contract_def alice_def)
  have h2: "Call toy_env (Deliver_params ?ctx) (Address (alice\<lparr>Balance := 95\<rparr>)) ?s (txe ?ctx)
              (Address (alice\<lparr>Balance := 95\<rparr>)) 2 [0xFD] (Data (tx ?ctx)) 15 (tx_GasLimit (tx ?ctx))
            = (?s, empty_txe, [], Some (Exception (ErrorCodeOther 17) ''execution reverted''), 4000)"
    by (simp add: toy_env_def toy_Call_def toy_ctx_def toy_tx_def)
  have h3: "Call toy_env (Deliver_params ?ctx) (Address (alice\<lparr>Balance := 95\<rparr>)) ?s empty_txe
              (Address (alice\<lparr>Balance := 95\<rparr>)) 2 (GetCode toy_env ?s erc20Address) erc20Data 15 4000
            = (?s2, empty_txe, [], None, 4000)"
    by (simp add: toy_env_def toy_Call_def toy_ctx_def toy_tx_def alice_def contract_def
                  transfer_def modify_def put_def erc20Address_def)
  from Deliver_vm_exception [OF h1 h2 h3] obtain ctx' where
    "Deliver toy_env ?ctx (alice\<lparr>Balance := 95\<rparr>) (Some (contract\<lparr>Code := [0xFD]\<rparr>)) 15 = (ctx', None)"
    "StateWriter ctx' = StateWriter ?ctx"
    "Exceptions (txe ctx') = Exceptions empty_txe
       @ [Exception (ErrorCode (Exception (ErrorCodeOther 17) ''execution reverted''))
           (''call error: '' @ ErrorString toy_env (Exception (ErrorCodeOther 17) ''execution reverted'')
            @ [CHR 0x0A] @ ''trace: '' @ Trace toy_env empty_txe)]"
    by blast
  then show ?thesis
    by (simp add: toy_env_def toy_ctx_def empty_txe_def)
qed

subsection \<open>Deliver: the second call of the virtual machine\<close>

text \<open>
  What a delivery that reaches the virtual machine and returns \<^verbatim>\<open>nil\<close> leaves behind:
  the gas used is the gas limit less the gas the \<^emph>\<open>second\<close> call left, the return
  value is the output of the first call, and the data of the transaction are the
  bytes written at line 211.
\<close>

lemma Deliver_call_result:
  assumes "Call env (Deliver_params ctx) caller txCache (txe ctx) caller callee code
             (Data (tx ctx)) value (tx_GasLimit (tx ctx)) = (txCache1, txe1, ret, exception, gas1)"
      and "Call env (Deliver_params ctx) caller txCache1 txe1 caller callee
             (GetCode env txCache1 erc20Address) erc20Data value gas1
             = (txCache2, txe2, ret2, exception2, gas2)"
      and "Deliver_call env ctx caller callee code txCache value = (ctx', None)"
  shows "Result_GasUsed (txe ctx') = tx_GasLimit (tx ctx) - gas2
         \<and> Result_Return (txe ctx') = ret
         \<and> tx ctx' = (tx ctx)\<lparr>Data := erc20Data\<rparr>"
  using assms
  by (auto simp: Deliver_call_def Let_def split: option.splits prod.splits dest!: Deliver_return_eq)

text \<open>
  C1, evaluated on the scenario of section 8 of the specification (balance 100,
  amount 20, fee 5, gas limit 5000, a call of a contract with code), in a store that
  also holds a contract at \<open>erc20Address\<close>; a call of the toy machine on code costs
  1000 gas. The call on the code of the callee is handed the value \<open>15 = 20 - 5\<close>
  and returns with 4000 gas left, so the claim has the receipt record
  \<open>5000 - 4000 = 1000\<close>. \<^verbatim>\<open>Execute\<close> records 2000: the second call ran on the same
  gas counter. It was handed the value 15 again, and the committed store has the
  balance of the caller at 65 and that of the callee at 30.
\<close>

theorem Execute_gas_used_example:
  "Call toy_env
      (Deliver_params (toy_ctx [(1, alice\<lparr>Balance := 95\<rparr>), (2, contract), (erc20Address, token)]
                         True (toy_tx (Some 2))))
      1 [(1, alice\<lparr>Balance := 95\<rparr>), (2, contract), (erc20Address, token)] empty_txe 1 2
      [0x60] [1, 2, 3] 15 5000
     = ([(2, contract\<lparr>Balance := 15\<rparr>), (1, alice\<lparr>Balance := 80\<rparr>), (erc20Address, token)],
        empty_txe, [1, 2, 3], None, 4000)
   \<and> Execute toy_env (toy_ctx [(1, alice), (2, contract), (erc20Address, token)] True (toy_tx (Some 2)))
        empty_txe (CallTxPayload (toy_tx (Some 2)))
     = (\<lparr>Tip = \<lparr>LastBlockHeight = 7, LastBlockHash = [], LastBlockTime = 0\<rparr>,
         StateWriter = [(2, contract\<lparr>Balance := 30\<rparr>), (1, alice\<lparr>Balance := 65\<rparr>),
                        (erc20Address, token)],
         RunCall = True,
         tx = (toy_tx (Some 2))\<lparr>Data := erc20Data\<rparr>,
         txe = \<lparr>Events = [InputEvent 1 None, InputEvent 2 None], Exceptions = [],
                 Result_Return = [1, 2, 3], Result_GasUsed = 2000\<rparr>\<rparr>, None)"
  by (simp add: Execute_def Precheck_def Precheck_update_def Deliver_def Deliver_callee_def
        Deliver_call_def Deliver_return_def CallEvents_def TxExecution_Input_def Return_def
        Let_def toy_env_def toy_Call_def toy_ctx_def toy_tx_def empty_txe_def alice_def
        contract_def token_def transfer_def modify_def put_def erc20Address_def)

text \<open>
  C4, evaluated on a creation with the data \<open>[1, 2, 3]\<close>: after \<^verbatim>\<open>Execute\<close> the data
  of the transaction are the 36 bytes decoded at line 211. (\<^verbatim>\<open>Precheck\<close> and \<^verbatim>\<open>Check\<close>
  leave the transaction alone: \<open>Precheck_frame\<close>, \<open>Check_frame\<close>.)
\<close>

theorem Execute_overwrites_Data_example:
  "Data (toy_tx None) = [1, 2, 3]
   \<and> Data (tx (fst (Execute toy_env (toy_ctx [(1, alice)] True (toy_tx None)) empty_txe
                      (CallTxPayload (toy_tx None)))))
       = [0x67, 0x81, 0x35, 0xFF] @ replicate 31 0 @ [0x01]"
  by (simp add: Execute_def Precheck_def Precheck_update_def Deliver_def Deliver_callee_def
        Deliver_call_def Deliver_return_def CallEvents_def TxExecution_Input_def Return_def
        Let_def toy_env_def toy_Call_def toy_ctx_def toy_tx_def empty_txe_def alice_def
        transfer_def modify_def put_def erc20Address_def erc20Data_def)

subsection \<open>Deliver: the address of a new contract\<close>

text \<open>
  For a creation the callee handed to the virtual machine is \<^verbatim>\<open>NewContractAddress\<close>
  of the caller and of the sequence number read from the cache after the increment.
\<close>

lemma Deliver_callee_creation:
  assumes "tx_Address (tx ctx) = None"
  shows "Deliver_callee env ctx inAcc outAcc txCache
           = Inr (NewContractAddress env (Address inAcc)
                    (GetSequence env (IncSequence env txCache (Address inAcc)) (Address inAcc)),
                  Data (tx ctx),
                  CreateAccount env (IncSequence env txCache (Address inAcc))
                    (NewContractAddress env (Address inAcc)
                       (GetSequence env (IncSequence env txCache (Address inAcc)) (Address inAcc))))"
  using assms by (simp add: Deliver_callee_def Let_def)

text \<open>For a call of an account with code the callee is that account and the code is read
  from the cache; these two cases are the ones in which the virtual machine is
  invoked.\<close>

lemma Deliver_callee_existing:
  assumes "tx_Address (tx ctx) = Some target" and "outAcc = Some out" and "Code out \<noteq> []"
  shows "Deliver_callee env ctx inAcc outAcc txCache
           = Inr (Address out, GetCode env txCache (Address out), txCache)"
  using assms by (simp add: Deliver_callee_def)

text \<open>
  \<^verbatim>\<open>Execute\<close> hands \<^verbatim>\<open>Deliver\<close> the value \<open>Amount - Fee\<close>, and \<^verbatim>\<open>Deliver\<close> hands it
  unchanged to both calls of the virtual machine.
\<close>

lemma Execute_Deliver_path:
  assumes "RunCall ctx"
      and "Precheck env (ctx\<lparr>tx := t, txe := txe0\<rparr>) = (ctx1, Inr (inAcc, outAcc))"
  shows "Execute env ctx txe0 (CallTxPayload t)
           = Deliver env ctx1 inAcc outAcc (Amount (Input t) - Fee t)"
proof -
  from Precheck_frame [OF assms(2)] obtain s' where
    "ctx1 = ctx\<lparr>tx := t, txe := txe0, StateWriter := s'\<rparr>" by auto
  with assms show ?thesis by (simp add: Execute_def Let_def)
qed

end
